theory Spec2Isabelle
  imports Complex_Main
begin

section \<open>RobustCountdown: a shallow embedding of src/robustCountdown.js\<close>

text \<open>
  The class \<^verbatim>\<open>RobustCountdown\<close> is modelled by explicit state passing. Every method
  takes the instance and returns the updated instance together with the list of effects
  it had on the host (text written to a DOM node, a callback invoked, an interval
  registered or cleared, a line on the console), in the order the source performs them.

  Numbers. Instants and durations are integral milliseconds (\<open>int\<close>); the one
  non-number the source can produce from them is \<^verbatim>\<open>NaN\<close>, the time value of an
  invalid \<^verbatim>\<open>Date\<close>, which is \<open>None\<close> in an \<open>int option\<close>. The ratios of the
  progress object are exact rationals (\<open>rat\<close>), not rounded doubles.

  Clock. Every \<^verbatim>\<open>new Date()\<close> of the source is one clock reading, passed as an
  argument to the function that takes it; a method that reads the clock twice takes
  two readings.

  Host. The browser (DOM lookup, the \<^verbatim>\<open>Date\<close> constructors) is a parameter of the
  model, the record \<open>host\<close>. Callbacks are opaque: the model records that they are
  invoked and with which arguments, and a callback does not call back into the instance.
\<close>

subsection \<open>Host environment\<close>

record host =
  querySelectorAll :: "string \<Rightarrow> nat list"
  querySelector :: "nat \<Rightarrow> string \<Rightarrow> nat option"
  dateParse :: "string \<Rightarrow> int option"
  dateUTC :: "int \<Rightarrow> int \<Rightarrow> int \<Rightarrow> int \<Rightarrow> int \<Rightarrow> int \<Rightarrow> int option"
  dateLocal :: "int \<Rightarrow> int \<Rightarrow> int \<Rightarrow> int \<Rightarrow> int \<Rightarrow> int \<Rightarrow> int option"
  getFullYear :: "int \<Rightarrow> int"

subsection \<open>Configuration\<close>

text \<open>
  \<open>duration = None\<close> is \<^verbatim>\<open>null\<close>. A callback field is \<open>True\<close> when it holds a
  function (\<^verbatim>\<open>typeof ... === "function"\<close>).
\<close>

record timer_options =
  duration :: "int option"
  disableOnPause :: bool

record on_options =
  update_cb :: bool
  finish_cb :: bool

record options =
  year :: int
  month :: int
  day :: int
  hours :: int
  minutes :: int
  seconds :: int
  enableUTC :: bool
  targetTime :: "string option"
  timer :: timer_options
  zeroPad :: bool
  daysSelector :: string
  hoursSelector :: string
  minutesSelector :: string
  secondsSelector :: string
  on_cb :: on_options

text \<open>
  The options object a caller passes to the constructor or to \<^verbatim>\<open>update\<close>: every key
  may be absent (\<open>None\<close>). \<open>new_timer = None\<close> is a missing or falsy \<^verbatim>\<open>timer\<close>
  key, for which the source spreads \<^verbatim>\<open>{}\<close>.
\<close>

record new_timer_options =
  new_duration :: "int option option"
  new_disableOnPause :: "bool option"

record new_on_options =
  new_update_cb :: "bool option"
  new_finish_cb :: "bool option"

record new_options =
  new_year :: "int option"
  new_month :: "int option"
  new_day :: "int option"
  new_hours :: "int option"
  new_minutes :: "int option"
  new_seconds :: "int option"
  new_enableUTC :: "bool option"
  new_targetTime :: "string option option"
  new_timer :: "new_timer_options option"
  new_zeroPad :: "bool option"
  new_daysSelector :: "string option"
  new_hoursSelector :: "string option"
  new_minutesSelector :: "string option"
  new_secondsSelector :: "string option"
  new_on :: "new_on_options option"

definition quoted :: "string \<Rightarrow> string" where
  "quoted s = [CHR 0x22] @ s @ [CHR 0x22]"

definition defaults :: "host \<Rightarrow> int \<Rightarrow> options" where
  "defaults h now =
     \<lparr> year = getFullYear h now, month = 1, day = 1, hours = 0, minutes = 0, seconds = 0,
       enableUTC = False,
       targetTime = None,
       timer = \<lparr> duration = None, disableOnPause = True \<rparr>,
       zeroPad = True,
       daysSelector = ''[data-countdown-type='' @ quoted ''days'' @ '']'',
       hoursSelector = ''[data-countdown-type='' @ quoted ''hours'' @ '']'',
       minutesSelector = ''[data-countdown-type='' @ quoted ''minutes'' @ '']'',
       secondsSelector = ''[data-countdown-type='' @ quoted ''seconds'' @ '']'',
       on_cb = \<lparr> update_cb = False, finish_cb = False \<rparr> \<rparr>"

definition spread :: "'a \<Rightarrow> 'a option \<Rightarrow> 'a" where
  "spread old new = (case new of None \<Rightarrow> old | Some v \<Rightarrow> v)"

definition merge_timer :: "timer_options \<Rightarrow> new_timer_options option \<Rightarrow> timer_options" where
  "merge_timer t n =
     (case n of
        None \<Rightarrow> t
      | Some p \<Rightarrow> \<lparr> duration = spread (duration t) (new_duration p),
                   disableOnPause = spread (disableOnPause t) (new_disableOnPause p) \<rparr>)"

definition merge_on :: "on_options \<Rightarrow> new_on_options option \<Rightarrow> on_options" where
  "merge_on c n =
     (case n of
        None \<Rightarrow> c
      | Some p \<Rightarrow> \<lparr> update_cb = spread (update_cb c) (new_update_cb p),
                   finish_cb = spread (finish_cb c) (new_finish_cb p) \<rparr>)"

text \<open>
  The object literal \<^verbatim>\<open>{ ...base, ...newOptions, timer: {...}, on: {...} }\<close> of the
  constructor and of \<^verbatim>\<open>update\<close>.
\<close>

definition merge_options :: "options \<Rightarrow> new_options \<Rightarrow> options" where
  "merge_options b n =
     \<lparr> year = spread (year b) (new_year n),
       month = spread (month b) (new_month n),
       day = spread (day b) (new_day n),
       hours = spread (hours b) (new_hours n),
       minutes = spread (minutes b) (new_minutes n),
       seconds = spread (seconds b) (new_seconds n),
       enableUTC = spread (enableUTC b) (new_enableUTC n),
       targetTime = spread (targetTime b) (new_targetTime n),
       timer = merge_timer (timer b) (new_timer n),
       zeroPad = spread (zeroPad b) (new_zeroPad n),
       daysSelector = spread (daysSelector b) (new_daysSelector n),
       hoursSelector = spread (hoursSelector b) (new_hoursSelector n),
       minutesSelector = spread (minutesSelector b) (new_minutesSelector n),
       secondsSelector = spread (secondsSelector b) (new_secondsSelector n),
       on_cb = merge_on (on_cb b) (new_on n) \<rparr>"

definition no_options :: new_options where
  "no_options =
     \<lparr> new_year = None, new_month = None, new_day = None, new_hours = None,
       new_minutes = None, new_seconds = None, new_enableUTC = None,
       new_targetTime = None, new_timer = None, new_zeroPad = None,
       new_daysSelector = None, new_hoursSelector = None, new_minutesSelector = None,
       new_secondsSelector = None, new_on = None \<rparr>"

subsection \<open>Runtime state\<close>

text \<open>
  \<open>intervalId = None\<close> is \<^verbatim>\<open>null\<close>; a handle returned by \<^verbatim>\<open>setInterval\<close> is a
  positive integer, hence truthy. \<open>targetTimestamp\<close> and \<open>totalDuration\<close> are
  \<open>None\<close> when they hold \<^verbatim>\<open>NaN\<close>.
\<close>

record state =
  elements :: "nat list"
  opts :: options
  intervalId :: "nat option"
  isPaused :: bool
  pauseStart :: int
  targetTimestamp :: "int option"
  startTimestamp :: int
  totalDuration :: "int option"

text \<open>
  What the constructor leaves behind: \<open>Inert\<close> when it returned early, with only
  \<^verbatim>\<open>this.elements\<close> assigned (the empty node list), and \<open>Live\<close> otherwise.
\<close>

datatype countdown = Inert "nat list" | Live state

record progress =
  total :: rat
  days_ratio :: "rat option"
  hours_ratio :: "rat option"
  minutes_ratio :: "rat option"
  seconds_ratio :: "rat option"

record time_data =
  days_left :: "int option"
  hours_left :: "int option"
  minutes_left :: "int option"
  seconds_left :: "int option"

datatype event =
    ConsoleError string
  | SetText nat string
  | OnUpdate progress "int option" time_data
  | OnFinish
  | SetInterval nat nat
  | ClearInterval nat

subsection \<open>calculateTarget\<close>

definition truthy :: "int option \<Rightarrow> bool" where
  "truthy v = (case v of None \<Rightarrow> False | Some n \<Rightarrow> n \<noteq> 0)"

definition truthy_string :: "string option \<Rightarrow> bool" where
  "truthy_string v = (case v of None \<Rightarrow> False | Some s \<Rightarrow> s \<noteq> [])"

definition or_default :: "int \<Rightarrow> int \<Rightarrow> int" where
  "or_default v d = (if v = 0 then d else v)"

definition granular_target :: "host \<Rightarrow> options \<Rightarrow> int option" where
  "granular_target h opt =
     (let y = year opt;
          m = or_default (month opt) 1 - 1;
          d = or_default (day opt) 1;
          hr = or_default (hours opt) 0;
          mi = or_default (minutes opt) 0;
          s = or_default (seconds opt) 0
      in if enableUTC opt then dateUTC h y m d hr mi s else dateLocal h y m d hr mi s)"

definition calculateTarget :: "host \<Rightarrow> int \<Rightarrow> state \<Rightarrow> state" where
  "calculateTarget h now this =
     (let this1 = this\<lparr> startTimestamp := now \<rparr>;
          opt = opts this1
      in if truthy (duration (timer opt)) then
           this1\<lparr> targetTimestamp := Some (startTimestamp this1 + the (duration (timer opt))),
                  totalDuration := duration (timer opt) \<rparr>
         else
           let targetDate =
                 (if truthy_string (targetTime opt) then dateParse h (the (targetTime opt))
                  else granular_target h opt)
           in this1\<lparr> targetTimestamp := targetDate,
                     totalDuration :=
                       map_option (\<lambda>t. max 0 (t - startTimestamp this1)) targetDate \<rparr>)"

subsection \<open>format\<close>

definition digit :: "nat \<Rightarrow> char" where
  "digit d = char_of (48 + d)"

fun nat_toString :: "nat \<Rightarrow> string" where
  "nat_toString n = (if n < 10 then [digit n] else nat_toString (n div 10) @ [digit (n mod 10)])"

definition toString :: "int option \<Rightarrow> string" where
  "toString v =
     (case v of
        None \<Rightarrow> ''NaN''
      | Some n \<Rightarrow> if n < 0 then CHR ''-'' # nat_toString (nat (- n)) else nat_toString (nat n))"

definition padStart :: "nat \<Rightarrow> char \<Rightarrow> string \<Rightarrow> string" where
  "padStart w c s = replicate (w - length s) c @ s"

definition format :: "state \<Rightarrow> int option \<Rightarrow> string" where
  "format this n =
     (if zeroPad (opts this) = False then toString n else padStart 2 CHR ''0'' (toString n))"

subsection \<open>tick\<close>

text \<open>
  \<^verbatim>\<open>Math.max(0, this.targetTimestamp - now)\<close>; \<^verbatim>\<open>Math.max\<close> of \<^verbatim>\<open>NaN\<close> is \<^verbatim>\<open>NaN\<close>.
\<close>

definition timeLeft :: "state \<Rightarrow> int \<Rightarrow> int option" where
  "timeLeft this now = map_option (\<lambda>t. max 0 (t - now)) (targetTimestamp this)"

text \<open>
  The four local constants of \<^verbatim>\<open>tick\<close>. Their argument is never negative, where
  \<^verbatim>\<open>Math.floor(a / b)\<close> is \<open>div\<close> and \<^verbatim>\<open>%\<close> is \<open>mod\<close>.
\<close>

definition tick_days :: "int \<Rightarrow> int" where
  "tick_days left = left div (1000 * 60 * 60 * 24)"

definition tick_hours :: "int \<Rightarrow> int" where
  "tick_hours left = (left mod (1000 * 60 * 60 * 24)) div (1000 * 60 * 60)"

definition tick_minutes :: "int \<Rightarrow> int" where
  "tick_minutes left = (left mod (1000 * 60 * 60)) div (1000 * 60)"

definition tick_seconds :: "int \<Rightarrow> int" where
  "tick_seconds left = (left mod (1000 * 60)) div 1000"

definition individualTimeData :: "int option \<Rightarrow> time_data" where
  "individualTimeData left =
     \<lparr> days_left = map_option tick_days left,
       hours_left = map_option tick_hours left,
       minutes_left = map_option tick_minutes left,
       seconds_left = map_option tick_seconds left \<rparr>"

text \<open>The comparisons \<^verbatim>\<open>x > 0\<close> and \<^verbatim>\<open>x <= 0\<close>, both false of \<^verbatim>\<open>NaN\<close>.\<close>

definition gt0 :: "int option \<Rightarrow> bool" where
  "gt0 v = (case v of None \<Rightarrow> False | Some n \<Rightarrow> 0 < n)"

definition le0 :: "int option \<Rightarrow> bool" where
  "le0 v = (case v of None \<Rightarrow> False | Some n \<Rightarrow> n \<le> 0)"

definition globalProgress :: "state \<Rightarrow> int \<Rightarrow> rat" where
  "globalProgress this now =
     (if gt0 (totalDuration this) then
        let elapsed = now - startTimestamp this
        in min 1 (max 0 (of_int elapsed / of_int (the (totalDuration this))))
      else 1)"

definition progressObject :: "state \<Rightarrow> int \<Rightarrow> progress" where
  "progressObject this now =
     (let left = timeLeft this now
      in \<lparr> total = globalProgress this now,
            days_ratio =
              (if gt0 (totalDuration this) then
                 map_option
                   (\<lambda>t. of_int (tick_days t)
                          / (of_int (the (totalDuration this)) / of_int (1000 * 60 * 60 * 24))) left
               else Some 0),
            hours_ratio = map_option (\<lambda>t. of_int (tick_hours t) / 24) left,
            minutes_ratio = map_option (\<lambda>t. of_int (tick_minutes t) / 60) left,
            seconds_ratio = map_option (\<lambda>t. of_int (tick_seconds t) / 60) left \<rparr>)"

definition setInnerText :: "nat option \<Rightarrow> string \<Rightarrow> event list" where
  "setInnerText node txt = (case node of None \<Rightarrow> [] | Some n \<Rightarrow> [SetText n txt])"

definition update_element :: "host \<Rightarrow> state \<Rightarrow> time_data \<Rightarrow> nat \<Rightarrow> event list" where
  "update_element h this td el =
     (let elDays = querySelector h el (daysSelector (opts this));
          elHours = querySelector h el (hoursSelector (opts this));
          elMin = querySelector h el (minutesSelector (opts this));
          elSec = querySelector h el (secondsSelector (opts this))
      in setInnerText elDays (format this (days_left td))
         @ setInnerText elHours (format this (hours_left td))
         @ setInnerText elMin (format this (minutes_left td))
         @ setInnerText elSec (format this (seconds_left td)))"

definition dom_updates :: "host \<Rightarrow> state \<Rightarrow> time_data \<Rightarrow> event list" where
  "dom_updates h this td = concat (map (update_element h this td) (elements this))"

definition update_callback :: "state \<Rightarrow> int \<Rightarrow> event list" where
  "update_callback this now =
     (if update_cb (on_cb (opts this))
      then [OnUpdate (progressObject this now) (timeLeft this now)
              (individualTimeData (timeLeft this now))]
      else [])"

definition finish_callback :: "state \<Rightarrow> event list" where
  "finish_callback this = (if finish_cb (on_cb (opts this)) then [OnFinish] else [])"

definition stop :: "state \<Rightarrow> state \<times> event list" where
  "stop this =
     (case intervalId this of
        Some i \<Rightarrow> (this\<lparr> intervalId := None, isPaused := True \<rparr>, [ClearInterval i])
      | None \<Rightarrow> (this\<lparr> isPaused := True \<rparr>, []))"

definition tick :: "host \<Rightarrow> int \<Rightarrow> state \<Rightarrow> state \<times> event list" where
  "tick h now this =
     (if isPaused this then (this, [])
      else
        let left = timeLeft this now;
            ev = dom_updates h this (individualTimeData left) @ update_callback this now
        in if le0 left then
             (let (this1, ev1) = stop this in (this1, ev @ ev1 @ finish_callback this1))
           else (this, ev))"

subsection \<open>API control methods\<close>

text \<open>
  \<open>handle\<close> is the identifier the host's \<^verbatim>\<open>setInterval\<close> returns to this call.
\<close>

definition start :: "host \<Rightarrow> int \<Rightarrow> nat \<Rightarrow> state \<Rightarrow> state \<times> event list" where
  "start h now handle this =
     (let (this1, ev) = tick h now (this\<lparr> isPaused := False \<rparr>);
          ev1 = (case intervalId this1 of None \<Rightarrow> [] | Some i \<Rightarrow> [ClearInterval i])
      in (this1\<lparr> intervalId := Some handle \<rparr>, ev @ ev1 @ [SetInterval handle 1000]))"

definition pause :: "int \<Rightarrow> state \<Rightarrow> state" where
  "pause now this = this\<lparr> isPaused := True, pauseStart := now \<rparr>"

text \<open>
  \<open>resume\<close> reads the clock itself (\<open>now\<close>); the tick of the \<open>start\<close> it ends with
  reads it again (\<open>now1\<close>).
\<close>

definition resume :: "host \<Rightarrow> int \<Rightarrow> int \<Rightarrow> nat \<Rightarrow> state \<Rightarrow> state \<times> event list" where
  "resume h now now1 handle this =
     (if \<not> isPaused this then (this, [])
      else
        let this1 =
              (if truthy (duration (timer (opts this))) \<and> disableOnPause (timer (opts this))
               then
                 let pauseDuration = now - pauseStart this
                 in this\<lparr> targetTimestamp :=
                            map_option (\<lambda>t. t + pauseDuration) (targetTimestamp this),
                          startTimestamp := startTimestamp this + pauseDuration \<rparr>
               else this)
        in start h now1 handle this1)"

definition restart :: "host \<Rightarrow> int \<Rightarrow> int \<Rightarrow> nat \<Rightarrow> state \<Rightarrow> state \<times> event list" where
  "restart h now now1 handle this =
     (let (this1, ev) = stop this;
          (this2, ev1) = start h now1 handle (calculateTarget h now this1)
      in (this2, ev @ ev1))"

definition update ::
  "host \<Rightarrow> new_options \<Rightarrow> int \<Rightarrow> int \<Rightarrow> nat \<Rightarrow> state \<Rightarrow> state \<times> event list" where
  "update h newOptions now now1 handle this =
     restart h now now1 handle (this\<lparr> opts := merge_options (opts this) newOptions \<rparr>)"

subsection \<open>Construction\<close>

definition init :: "host \<Rightarrow> int \<Rightarrow> int \<Rightarrow> nat \<Rightarrow> state \<Rightarrow> state \<times> event list" where
  "init h now now1 handle this = start h now1 handle (calculateTarget h now this)"

text \<open>
  \<open>now0\<close> is the clock reading of the \<^verbatim>\<open>defaults\<close> object, \<open>now\<close> that of
  \<^verbatim>\<open>calculateTarget\<close>, \<open>now1\<close> that of the first tick.
\<close>

definition no_elements_message :: "string \<Rightarrow> string" where
  "no_elements_message selector =
     ''RobustCountdown: No elements found for selector '' @ quoted selector"

definition constructor ::
  "host \<Rightarrow> string \<Rightarrow> new_options \<Rightarrow> int \<Rightarrow> int \<Rightarrow> int \<Rightarrow> nat \<Rightarrow> countdown \<times> event list" where
  "constructor h selector options now0 now now1 handle =
     (let els = querySelectorAll h selector
      in if length els = 0 then (Inert els, [ConsoleError (no_elements_message selector)])
         else
           let this = \<lparr> elements = els,
                        opts = merge_options (defaults h now0) options,
                        intervalId = None,
                        isPaused = False,
                        pauseStart = 0,
                        targetTimestamp = Some 0,
                        startTimestamp = 0,
                        totalDuration = Some 0 \<rparr>;
               (this1, ev) = init h now now1 handle this
           in (Live this1, ev))"

subsection \<open>Sequences of calls\<close>





subsection \<open>A host to evaluate the model on\<close>

text \<open>
  A page with one wrapper element (node 0) matched by \<^verbatim>\<open>#timer\<close>, holding a minutes
  node (1) and a seconds node (2) under the default selectors, and a \<^verbatim>\<open>Date\<close> that
  knows a single instant, five seconds after the epoch, in UTC and in a zone one hour
  west of it.
\<close>

definition page :: host where
  "page =
     \<lparr> querySelectorAll = (\<lambda>sel. if sel = ''#timer'' then [0] else []),
       querySelector =
         (\<lambda>el sel. if sel = ''[data-countdown-type='' @ quoted ''minutes'' @ '']'' then Some 1
                    else if sel = ''[data-countdown-type='' @ quoted ''seconds'' @ '']'' then Some 2
                    else None),
       dateParse = (\<lambda>s. if s = ''1970-01-01T00:00:05Z'' then Some 5000 else None),
       dateUTC =
         (\<lambda>y m d hr mi s. if (y, m, d, hr, mi, s) = (1970, 0, 1, 0, 0, 5) then Some 5000 else None),
       dateLocal =
         (\<lambda>y m d hr mi s. if (y, m, d, hr, mi, s) = (1970, 0, 1, 0, 0, 5) then Some 3605000 else None),
       getFullYear = (\<lambda>now. 1970) \<rparr>"

text \<open>
  Two countdowns on that page, each written as the options its caller passes and as the
  state the constructor leaves when every clock reading is 0 and the interval handle is 1:
  a relative timer of one minute, and a countdown to the instant the page's \<^verbatim>\<open>Date\<close>
  knows, given as a date string. Both have the two callbacks.
\<close>

definition both_callbacks :: new_on_options where
  "both_callbacks = \<lparr> new_update_cb = Some True, new_finish_cb = Some True \<rparr>"

definition minute_options :: new_options where
  "minute_options =
     no_options\<lparr> new_timer := Some \<lparr> new_duration = Some (Some 60000),
                                        new_disableOnPause = None \<rparr>,
                 new_on := Some both_callbacks \<rparr>"

definition minute_timer :: state where
  "minute_timer =
     \<lparr> elements = [0],
       opts = merge_options (defaults page 0) minute_options,
       intervalId = Some 1,
       isPaused = False,
       pauseStart = 0,
       targetTimestamp = Some 60000,
       startTimestamp = 0,
       totalDuration = Some 60000 \<rparr>"

definition dated_options :: new_options where
  "dated_options =
     no_options\<lparr> new_targetTime := Some (Some ''1970-01-01T00:00:05Z''),
                 new_on := Some both_callbacks \<rparr>"

definition dated_timer :: state where
  "dated_timer =
     \<lparr> elements = [0],
       opts = merge_options (defaults page 0) dated_options,
       intervalId = Some 1,
       isPaused = False,
       pauseStart = 0,
       targetTimestamp = Some 5000,
       startTimestamp = 0,
       totalDuration = Some 5000 \<rparr>"

text \<open>
  The granular fields alone: five seconds past midnight on 1 January 1970, read as UTC.
\<close>

definition granular_options :: new_options where
  "granular_options = no_options\<lparr> new_seconds := Some 5, new_enableUTC := Some True \<rparr>"

definition granular_timer :: state where
  "granular_timer = dated_timer\<lparr> opts := merge_options (defaults page 0) granular_options \<rparr>"

definition live :: "countdown \<Rightarrow> state option" where
  "live c = (case c of Inert els \<Rightarrow> None | Live this \<Rightarrow> Some this)"

section \<open>Properties\<close>

subsection \<open>Arithmetic of the time units\<close>

lemma div_below:
  fixes r u k :: int
  assumes "0 < u" "r < k * u"
  shows "r div u < k"
proof (rule ccontr)
  assume "\<not> r div u < k"
  then have "k \<le> r div u" by simp
  then have "k * u \<le> r div u * u" using assms(1) by (simp add: mult_right_mono)
  moreover have "0 \<le> r mod u" using assms(1) by simp
  moreover have "r div u * u + r mod u = r" by (rule div_mult_mod_eq)
  ultimately show False using assms(2) by linarith
qed

lemma linear_sum:
  fixes t :: int
  assumes "dd * 86400000 + r1 = t" "hh * 3600000 + r2 = r1" "mm * 60000 + r3 = r2"
    "ss * 1000 + r4 = r3" "0 \<le> r4" "r4 < 1000"
  shows "dd * 86400000 + hh * 3600000 + mm * 60000 + ss * 1000 \<le> t
       \<and> t < dd * 86400000 + hh * 3600000 + mm * 60000 + (ss + 1) * 1000"
  using assms by (simp add: algebra_simps)

lemma tick_units:
  "tick_days t = t div 86400000"
  "tick_hours t = t mod 86400000 div 3600000"
  "tick_minutes t = t mod 3600000 div 60000"
  "tick_seconds t = t mod 60000 div 1000"
  by (simp_all add: tick_days_def tick_hours_def tick_minutes_def tick_seconds_def)

lemmas fixture_defs = page_def minute_timer_def dated_timer_def granular_timer_def
  minute_options_def dated_options_def granular_options_def both_callbacks_def no_options_def
  merge_options_def merge_timer_def merge_on_def spread_def defaults_def quoted_def

subsection \<open>Target computation\<close>

text \<open>
  C1. \<^verbatim>\<open>calculateTarget\<close> applies one rule, in priority order. With a non-null, non-zero
  relative duration \<open>d\<close> the target is the start instant plus \<open>d\<close> and the total duration
  is \<open>d\<close>, whatever the date string and the granular fields hold. Otherwise, with a
  date string (non-null and non-empty, which is what the source's truthiness test lets
  through), the target is what the host's date parser makes of it. Otherwise the target
  is built from the granular fields, the month moved from 1-indexed to 0-indexed, through
  \<^verbatim>\<open>Date.UTC\<close> if and only if \<^verbatim>\<open>enableUTC\<close> is set and through the local-time
  constructor if not.
\<close>

theorem calculateTarget_priority:
  "(duration (timer (opts this)) = Some d \<and> d \<noteq> 0 \<longrightarrow>
      calculateTarget h now this
        = this\<lparr> startTimestamp := now, targetTimestamp := Some (now + d),
                totalDuration := Some d \<rparr>)
   \<and> ((duration (timer (opts this)) = None \<or> duration (timer (opts this)) = Some 0)
        \<and> targetTime (opts this) = Some str \<and> str \<noteq> [] \<longrightarrow>
      calculateTarget h now this
        = this\<lparr> startTimestamp := now, targetTimestamp := dateParse h str,
                totalDuration := map_option (\<lambda>t. max 0 (t - now)) (dateParse h str) \<rparr>)
   \<and> ((duration (timer (opts this)) = None \<or> duration (timer (opts this)) = Some 0)
        \<and> (targetTime (opts this) = None \<or> targetTime (opts this) = Some []) \<longrightarrow>
      targetTimestamp (calculateTarget h now this)
        = (if enableUTC (opts this) then dateUTC h else dateLocal h)
            (year (opts this))
            ((if month (opts this) = 0 then 1 else month (opts this)) - 1)
            (if day (opts this) = 0 then 1 else day (opts this))
            (hours (opts this)) (minutes (opts this)) (seconds (opts this))
      \<and> totalDuration (calculateTarget h now this)
        = map_option (\<lambda>t. max 0 (t - now)) (targetTimestamp (calculateTarget h now this))
      \<and> startTimestamp (calculateTarget h now this) = now)"
  by (auto simp add: calculateTarget_def truthy_def truthy_string_def granular_target_def
      or_default_def Let_def)

theorem calculateTarget_priority_witness:
  "duration (timer (opts minute_timer)) = Some 60000
   \<and> targetTimestamp (calculateTarget page 1000 minute_timer) = Some 61000
   \<and> totalDuration (calculateTarget page 1000 minute_timer) = Some 60000
   \<and> duration (timer (opts dated_timer)) = None
   \<and> targetTime (opts dated_timer) = Some ''1970-01-01T00:00:05Z''
   \<and> targetTimestamp (calculateTarget page 1000 dated_timer) = Some 5000
   \<and> totalDuration (calculateTarget page 1000 dated_timer) = Some 4000
   \<and> duration (timer (opts granular_timer)) = None
   \<and> targetTime (opts granular_timer) = None
   \<and> targetTimestamp (calculateTarget page 1000 granular_timer) = Some 5000
   \<and> targetTimestamp
        (calculateTarget page 1000
           (granular_timer\<lparr> opts := (opts granular_timer)\<lparr> enableUTC := False \<rparr> \<rparr>))
       = Some 3605000"
proof -
  have a: "duration (timer (opts minute_timer)) = Some 60000"
    by (simp add: fixture_defs)
  have b: "duration (timer (opts dated_timer)) = None"
    "targetTime (opts dated_timer) = Some ''1970-01-01T00:00:05Z''"
    by (simp_all add: fixture_defs)
  have c: "duration (timer (opts granular_timer)) = None"
    "targetTime (opts granular_timer) = None"
    by (simp_all add: fixture_defs)
  have g: "year (opts granular_timer) = 1970" "month (opts granular_timer) = 1"
    "day (opts granular_timer) = 1" "hours (opts granular_timer) = 0"
    "minutes (opts granular_timer) = 0" "seconds (opts granular_timer) = 5"
    "enableUTC (opts granular_timer)"
    by (simp_all add: fixture_defs)
  have p: "dateParse page ''1970-01-01T00:00:05Z'' = Some 5000"
    "dateUTC page 1970 0 1 0 0 5 = Some 5000" "dateLocal page 1970 0 1 0 0 5 = Some 3605000"
    by (simp_all add: page_def)
  show ?thesis
    using calculateTarget_priority
        [where this = minute_timer and d = 60000 and h = page and now = 1000]
      calculateTarget_priority
        [where this = dated_timer and str = "''1970-01-01T00:00:05Z''" and h = page
           and now = 1000]
      calculateTarget_priority [where this = granular_timer and h = page and now = 1000]
      calculateTarget_priority
        [where this = "granular_timer\<lparr> opts := (opts granular_timer)\<lparr> enableUTC := False \<rparr> \<rparr>"
           and h = page and now = 1000]
    by (simp add: a b c g p)
qed

subsection \<open>The tick\<close>

text \<open>
  C2. For every non-negative \<open>timeLeft\<close>, the days, hours, minutes and seconds that
  \<^verbatim>\<open>tick\<close> derives from it with the fixed-length units bracket it to within one second:
  their weighted sum is at most \<open>timeLeft\<close>, which is below that sum with one more
  second; hours lie in 0..23, minutes and seconds in 0..59, and days are only bounded
  below, by 0.
\<close>

theorem tick_decomposition:
  assumes "0 \<le> t"
  shows "tick_days t * 86400000 + tick_hours t * 3600000 + tick_minutes t * 60000
           + tick_seconds t * 1000 \<le> t
       \<and> t < tick_days t * 86400000 + tick_hours t * 3600000 + tick_minutes t * 60000
           + (tick_seconds t + 1) * 1000
       \<and> 0 \<le> tick_hours t \<and> tick_hours t < 24
       \<and> 0 \<le> tick_minutes t \<and> tick_minutes t < 60
       \<and> 0 \<le> tick_seconds t \<and> tick_seconds t < 60
       \<and> 0 \<le> tick_days t"
proof -
  have d: "t div 86400000 * 86400000 + t mod 86400000 = t"
    by (rule div_mult_mod_eq)
  have "t mod 86400000 mod 3600000 = t mod 3600000"
    by (rule mod_mod_cancel) simp
  then have h: "t mod 86400000 div 3600000 * 3600000 + t mod 3600000 = t mod 86400000"
    using div_mult_mod_eq [of "t mod 86400000" 3600000] by simp
  have "t mod 3600000 mod 60000 = t mod 60000"
    by (rule mod_mod_cancel) simp
  then have m: "t mod 3600000 div 60000 * 60000 + t mod 60000 = t mod 3600000"
    using div_mult_mod_eq [of "t mod 3600000" 60000] by simp
  have s: "t mod 60000 div 1000 * 1000 + t mod 60000 mod 1000 = t mod 60000"
    by (rule div_mult_mod_eq)
  have r: "0 \<le> t mod 60000 mod 1000" "t mod 60000 mod 1000 < 1000"
    by simp_all
  have hb: "t mod 86400000 div 3600000 < 24"
    by (rule div_below) simp_all
  have mb: "t mod 3600000 div 60000 < 60"
    by (rule div_below) simp_all
  have sb: "t mod 60000 div 1000 < 60"
    by (rule div_below) simp_all
  have nn: "0 \<le> t mod 86400000 div 3600000" "0 \<le> t mod 3600000 div 60000"
    "0 \<le> t mod 60000 div 1000" "0 \<le> t div 86400000"
    using assms by (simp_all add: pos_imp_zdiv_nonneg_iff)
  show ?thesis
    unfolding tick_units
    using linear_sum [OF d h m s r] hb mb sb nn by blast
qed

theorem tick_decomposition_witness:
  "(0::int) \<le> 93784005
   \<and> tick_days 93784005 = 1 \<and> tick_hours 93784005 = 2
   \<and> tick_minutes 93784005 = 3 \<and> tick_seconds 93784005 = 4
   \<and> tick_days 93784005 * 86400000 + tick_hours 93784005 * 3600000
        + tick_minutes 93784005 * 60000 + tick_seconds 93784005 * 1000 \<le> 93784005
   \<and> 93784005 < tick_days 93784005 * 86400000 + tick_hours 93784005 * 3600000
        + tick_minutes 93784005 * 60000 + (tick_seconds 93784005 + 1) * 1000"
proof -
  have h: "(0::int) \<le> 93784005" by simp
  have v: "tick_days 93784005 = 1" "tick_hours 93784005 = 2"
    "tick_minutes 93784005 = 3" "tick_seconds 93784005 = 4"
    by (simp_all add: tick_units)
  show ?thesis using h v tick_decomposition [OF h] by blast
qed

text \<open>
  C3. On a processed tick the \<^verbatim>\<open>total\<close> of the progress object is the elapsed time
  over the total duration, clamped to the interval from 0 to 1, when the total duration is
  positive, and 1 when the total duration is zero or negative. It is this progress object
  that a processed tick hands to the update callback.
\<close>

theorem tick_progress_total:
  "(totalDuration this = Some d \<and> 0 < d \<longrightarrow>
      total (progressObject this now)
        = min 1 (max 0 (of_int (now - startTimestamp this) / of_int d)))
   \<and> (totalDuration this = Some d \<and> d \<le> 0 \<longrightarrow> total (progressObject this now) = 1)
   \<and> 0 \<le> total (progressObject this now) \<and> total (progressObject this now) \<le> 1
   \<and> (\<not> isPaused this \<and> update_cb (on_cb (opts this)) \<longrightarrow>
        OnUpdate (progressObject this now) (timeLeft this now)
          (individualTimeData (timeLeft this now)) \<in> set (snd (tick h now this)))"
  by (auto simp add: progressObject_def globalProgress_def gt0_def Let_def tick_def
      update_callback_def split: option.splits prod.splits)

theorem tick_progress_total_witness:
  "totalDuration minute_timer = Some 60000
   \<and> total (progressObject minute_timer 15000) = 1 / 4
   \<and> totalDuration (minute_timer\<lparr> totalDuration := Some 0 \<rparr>) = Some 0
   \<and> total (progressObject (minute_timer\<lparr> totalDuration := Some 0 \<rparr>) 15000) = 1
   \<and> \<not> isPaused minute_timer \<and> update_cb (on_cb (opts minute_timer))
   \<and> OnUpdate (progressObject minute_timer 15000) (timeLeft minute_timer 15000)
        (individualTimeData (timeLeft minute_timer 15000))
        \<in> set (snd (tick page 15000 minute_timer))"
proof -
  have a: "totalDuration minute_timer = Some 60000" "startTimestamp minute_timer = 0"
    "\<not> isPaused minute_timer" "update_cb (on_cb (opts minute_timer))"
    by (simp_all add: fixture_defs)
  show ?thesis
    using tick_progress_total [where this = minute_timer and d = 60000 and now = 15000
        and h = page]
      tick_progress_total [where this = "minute_timer\<lparr> totalDuration := Some 0 \<rparr>"
        and d = 0 and now = 15000 and h = page]
    by (simp add: a)
qed

subsection \<open>What each method does to the state and to the host\<close>

lemma stop_state: "fst (stop this) = this\<lparr> intervalId := None, isPaused := True \<rparr>"
  by (cases "intervalId this") (simp_all add: stop_def)

lemma stop_events:
  "snd (stop this) = (case intervalId this of None \<Rightarrow> [] | Some i \<Rightarrow> [ClearInterval i])"
  by (cases "intervalId this") (simp_all add: stop_def)

lemma tick_state:
  "fst (tick h now this)
     = (if \<not> isPaused this \<and> le0 (timeLeft this now)
        then this\<lparr> intervalId := None, isPaused := True \<rparr> else this)"
  by (simp add: tick_def Let_def case_prod_beta stop_state)

lemma tick_events:
  "snd (tick h now this)
     = (if isPaused this then []
        else dom_updates h this (individualTimeData (timeLeft this now))
             @ update_callback this now
             @ (if le0 (timeLeft this now) then snd (stop this) @ finish_callback this else []))"
  by (simp add: tick_def Let_def case_prod_beta stop_state finish_callback_def)

lemma timeLeft_isPaused [simp]: "timeLeft (this\<lparr> isPaused := b \<rparr>) now = timeLeft this now"
  by (simp add: timeLeft_def)

lemma start_state:
  "fst (start h now handle this)
     = this\<lparr> isPaused := le0 (timeLeft this now), intervalId := Some handle \<rparr>"
  by (simp add: start_def Let_def case_prod_beta tick_state)

lemma start_events:
  "snd (start h now handle this)
     = snd (tick h now (this\<lparr> isPaused := False \<rparr>))
       @ (if le0 (timeLeft this now) then []
          else case intervalId this of None \<Rightarrow> [] | Some i \<Rightarrow> [ClearInterval i])
       @ [SetInterval handle 1000]"
  by (simp add: start_def Let_def case_prod_beta tick_state)

lemma resume_state:
  "fst (resume h now now1 handle this)
     = (if \<not> isPaused this then this
        else if truthy (duration (timer (opts this))) \<and> disableOnPause (timer (opts this))
        then this\<lparr> targetTimestamp :=
                      map_option (\<lambda>t. t + (now - pauseStart this)) (targetTimestamp this),
                    startTimestamp := startTimestamp this + (now - pauseStart this),
                    isPaused :=
                      le0 (map_option (\<lambda>t. max 0 (t + (now - pauseStart this) - now1))
                             (targetTimestamp this)),
                    intervalId := Some handle \<rparr>
        else this\<lparr> isPaused := le0 (timeLeft this now1), intervalId := Some handle \<rparr>)"
  by (simp add: resume_def Let_def start_state timeLeft_def option.map_comp comp_def)

lemma update_element_opts:
  "opts a = opts b \<Longrightarrow> update_element h a td = update_element h b td"
  by (rule ext) (simp add: update_element_def format_def)

lemma dom_updates_opts:
  "opts a = opts b \<Longrightarrow> elements a = elements b \<Longrightarrow> dom_updates h a td = dom_updates h b td"
  by (simp add: dom_updates_def update_element_opts [of a b])

lemma tick_events_cong:
  assumes "opts a = opts b" "elements a = elements b" "intervalId a = intervalId b"
    "isPaused a = isPaused b" "totalDuration a = totalDuration b"
    "timeLeft a n = timeLeft b m" "n - startTimestamp a = m - startTimestamp b"
  shows "snd (tick h n a) = snd (tick h m b)"
proof -
  have d: "dom_updates h a td = dom_updates h b td" for td
    using assms(1,2) by (rule dom_updates_opts)
  have u: "update_callback a n = update_callback b m"
    using assms by (simp add: update_callback_def progressObject_def globalProgress_def)
  have f: "finish_callback a = finish_callback b" "snd (stop a) = snd (stop b)"
    using assms by (simp_all add: finish_callback_def stop_events)
  show ?thesis
    using assms(4,6) by (simp add: tick_events d u f)
qed

lemma resume_events_same_reading:
  assumes "truthy (duration (timer (opts this)))" "disableOnPause (timer (opts this))"
  shows "snd (resume h (t + P) (t + P) handle (pause t this)) = snd (start h t handle this)"
proof -
  let ?shifted = "(pause t this)\<lparr> targetTimestamp :=
                      map_option (\<lambda>x. x + P) (targetTimestamp this),
                    startTimestamp := startTimestamp this + P \<rparr>"
  have r: "resume h (t + P) (t + P) handle (pause t this) = start h (t + P) handle ?shifted"
    using assms by (simp add: resume_def pause_def Let_def)
  have l: "timeLeft ?shifted (t + P) = timeLeft this t"
    by (simp add: timeLeft_def pause_def option.map_comp comp_def)
  have "snd (tick h (t + P) (?shifted\<lparr> isPaused := False \<rparr>))
          = snd (tick h t (this\<lparr> isPaused := False \<rparr>))"
    by (rule tick_events_cong) (simp_all add: pause_def l timeLeft_def option.map_comp comp_def)
  then show ?thesis
    unfolding r
    by (simp add: start_events pause_def timeLeft_def option.map_comp comp_def)
qed

subsection \<open>Pause and resume\<close>

text \<open>
  C4. With a relative-duration target and \<^verbatim>\<open>disableOnPause\<close> set, pausing at time
  \<open>t\<close> and resuming at time \<open>t + P\<close> moves \<^verbatim>\<open>targetTimestamp\<close> and
  \<^verbatim>\<open>startTimestamp\<close> forward by \<open>P\<close> and leaves \<^verbatim>\<open>totalDuration\<close> alone. The time
  left at the resume instant is then the time left at the pause instant, the elapsed time
  within the window is the same as well, and so is the whole progress object; when the
  tick that \<^verbatim>\<open>resume\<close> runs reads the clock at \<open>t + P\<close> too, \<^verbatim>\<open>resume\<close> has on the
  host the effects a \<^verbatim>\<open>start\<close> at the pause instant would have had.
\<close>

theorem pause_resume_freeze:
  assumes "truthy (duration (timer (opts this)))" "disableOnPause (timer (opts this))"
  shows "let resumed = fst (resume h (t + P) now1 handle (pause t this))
         in targetTimestamp resumed = map_option (\<lambda>x. x + P) (targetTimestamp this)
          \<and> startTimestamp resumed = startTimestamp this + P
          \<and> totalDuration resumed = totalDuration this
          \<and> timeLeft resumed (t + P) = timeLeft this t
          \<and> (t + P) - startTimestamp resumed = t - startTimestamp this
          \<and> progressObject resumed (t + P) = progressObject this t
          \<and> snd (resume h (t + P) (t + P) handle (pause t this)) = snd (start h t handle this)"
  using assms
  by (simp add: Let_def resume_state pause_def timeLeft_def option.map_comp comp_def
      progressObject_def globalProgress_def
      resume_events_same_reading [OF assms, unfolded pause_def])

theorem pause_resume_freeze_witness:
  "truthy (duration (timer (opts minute_timer))) \<and> disableOnPause (timer (opts minute_timer))
   \<and> targetTimestamp (fst (resume page 30000 30000 2 (pause 10000 minute_timer))) = Some 80000
   \<and> startTimestamp (fst (resume page 30000 30000 2 (pause 10000 minute_timer))) = 20000
   \<and> timeLeft minute_timer 10000 = Some 50000
   \<and> timeLeft (fst (resume page 30000 30000 2 (pause 10000 minute_timer))) 30000 = Some 50000"
proof -
  have a: "truthy (duration (timer (opts minute_timer)))"
    "disableOnPause (timer (opts minute_timer))"
    by (simp_all add: fixture_defs truthy_def)
  have b: "targetTimestamp minute_timer = Some 60000" "startTimestamp minute_timer = 0"
    by (simp_all add: minute_timer_def)
  show ?thesis
    using a b pause_resume_freeze [OF a, of page 10000 20000 30000 2]
    by (simp add: Let_def timeLeft_def)
qed

subsection \<open>The fixtures are states the constructor reaches\<close>

lemma dated_timer_constructed:
  "fst (constructor page ''#timer'' dated_options 0 0 0 1) = Live dated_timer"
  by code_simp

lemma minute_timer_constructed:
  "fst (constructor page ''#timer'' minute_options 0 0 0 1) = Live minute_timer"
  by code_simp

subsection \<open>Completion\<close>












subsection \<open>The total duration\<close>

lemma absolute_totalDuration_nonneg:
  assumes "\<not> truthy (duration (timer (opts this)))"
    "totalDuration (calculateTarget h now this) = Some d"
  shows "0 \<le> d"
  using assms by (auto simp add: calculateTarget_def Let_def)

lemma totalDuration_negative_iff:
  "(\<exists>d. d < 0 \<and> totalDuration (calculateTarget h now this) = Some d)
     = (\<exists>d. d < 0 \<and> duration (timer (opts this)) = Some d)"
  by (auto simp add: calculateTarget_def Let_def truthy_def split: option.splits)

text \<open>
  C6 states that \<^verbatim>\<open>totalDuration\<close> is never negative. The branch of
  \<^verbatim>\<open>calculateTarget\<close> for an absolute target clamps it with \<^verbatim>\<open>Math.max(0, ...)\<close>
  (\<open>absolute_totalDuration_nonneg\<close>); the branch for a relative duration stores the
  configured duration as it is, so that the total duration is negative exactly when the
  configured duration is (\<open>totalDuration_negative_iff\<close>). Constructed with \<^verbatim>\<open>{ timer: { duration: -5000 } }\<close>,
  the instance has a total duration of -5000.
\<close>

theorem negative_duration_total:
  "map_option totalDuration
     (live (fst (constructor page ''#timer''
        (no_options\<lparr> new_timer := Some \<lparr> new_duration = Some (Some (- 5000)),
                                           new_disableOnPause = None \<rparr> \<rparr>) 0 0 0 1)))
     = Some (Some (- 5000))"
  by code_simp

subsection \<open>A selector that matches nothing\<close>

text \<open>
  C7, as the code has it. When the selector matches no element, the constructor writes
  one error to the console and returns at once: the object holds the empty element list
  and nothing else. No options are merged, no target is computed, no interval is
  registered, nothing is rendered and no callback is invoked.
\<close>

theorem no_elements_inert:
  assumes "querySelectorAll h selector = []"
  shows "constructor h selector options now0 now now1 handle
           = (Inert [], [ConsoleError (no_elements_message selector)])"
  using assms by (simp add: constructor_def)

theorem no_elements_inert_witness:
  "querySelectorAll page ''.banner'' = []
   \<and> constructor page ''.banner'' no_options 0 0 0 1
       = (Inert [], [ConsoleError (no_elements_message ''.banner'')])"
proof -
  have h: "querySelectorAll page ''.banner'' = []" by (simp add: page_def)
  show ?thesis using h no_elements_inert [OF h] by simp
qed

text \<open>
  The claim has such an instance still compute its target and fire its callbacks. With
  both callbacks configured and a selector the page does not match, construction leaves
  no live state and its only effect is the console error; the same options on a selector
  that matches render and invoke the update callback.
\<close>

theorem no_elements_no_callbacks:
  "live (fst (constructor page ''#missing'' minute_options 0 0 0 1)) = None
   \<and> snd (constructor page ''#missing'' minute_options 0 0 0 1)
       = [ConsoleError (no_elements_message ''#missing'')]
   \<and> snd (constructor page ''#timer'' minute_options 0 0 0 1)
       = [SetText 1 ''01'', SetText 2 ''00'',
          OnUpdate (progressObject minute_timer 0) (Some 60000)
            (individualTimeData (Some 60000)),
          SetInterval 1 1000]"
  by code_simp

subsection \<open>Pausing twice\<close>

lemma pause_overwrites: "pause t2 (pause t1 this) = pause t2 this"
  by (simp add: pause_def)

lemma resume_running: "\<not> isPaused this \<Longrightarrow> resume h now now1 handle this = (this, [])"
  by (simp add: resume_def)

text \<open>
  C8 states that a second \<^verbatim>\<open>pause\<close> changes nothing, the time left after a later
  \<^verbatim>\<open>resume\<close> included. \<^verbatim>\<open>resume\<close> does return at once when the instance is not paused
  (\<open>resume_running\<close>), but \<^verbatim>\<open>pause\<close> has no such guard: a second call records the
  later clock reading as the start of the pause (\<open>pause_overwrites\<close>). On the one-minute
  timer paused at 10000 with 50000 left, a \<^verbatim>\<open>resume\<close> at 30000 restores 50000; with a
  second \<^verbatim>\<open>pause\<close> at 20000 in between it restores 40000.
\<close>

theorem second_pause_loses_time:
  "timeLeft minute_timer 10000 = Some 50000
   \<and> timeLeft (fst (resume page 30000 30000 2 (pause 10000 minute_timer))) 30000 = Some 50000
   \<and> timeLeft (fst (resume page 30000 30000 2 (pause 20000 (pause 10000 minute_timer)))) 30000
       = Some 40000
   \<and> pause 20000 (pause 10000 minute_timer) \<noteq> pause 10000 minute_timer"
  by code_simp

subsection \<open>Who writes the target and the total duration\<close>

lemma calculateTarget_written:
  "targetTimestamp (calculateTarget h now (this\<lparr> targetTimestamp := a, totalDuration := b \<rparr>))
     = targetTimestamp (calculateTarget h now this)"
  "totalDuration (calculateTarget h now (this\<lparr> targetTimestamp := a, totalDuration := b \<rparr>))
     = totalDuration (calculateTarget h now this)"
  by (simp_all add: calculateTarget_def Let_def)

lemma calculateTarget_after_stop:
  "targetTimestamp (calculateTarget h now (this\<lparr> intervalId := i, isPaused := p \<rparr>))
     = targetTimestamp (calculateTarget h now this)"
  "totalDuration (calculateTarget h now (this\<lparr> intervalId := i, isPaused := p \<rparr>))
     = totalDuration (calculateTarget h now this)"
  by (simp_all add: calculateTarget_def Let_def)

lemma restart_state:
  "fst (restart h now now1 handle this)
     = fst (start h now1 handle (calculateTarget h now (fst (stop this))))"
  by (simp add: restart_def case_prod_beta)

text \<open>
  C9, as the code has it. \<^verbatim>\<open>totalDuration\<close> is written by \<^verbatim>\<open>calculateTarget\<close> only,
  which writes \<^verbatim>\<open>targetTimestamp\<close> in the same computation: what it stores in the two
  fields does not depend on what they held, and \<^verbatim>\<open>restart\<close> and \<^verbatim>\<open>update\<close> leave in
  them what \<^verbatim>\<open>calculateTarget\<close> computed. \<^verbatim>\<open>tick\<close>, \<^verbatim>\<open>pause\<close>, \<^verbatim>\<open>stop\<close> and
  \<^verbatim>\<open>start\<close> change neither field. \<^verbatim>\<open>resume\<close> never changes \<^verbatim>\<open>totalDuration\<close>, and it
  changes \<^verbatim>\<open>targetTimestamp\<close> in one case: on a paused instance with a relative duration
  and \<^verbatim>\<open>disableOnPause\<close> set, it moves \<^verbatim>\<open>targetTimestamp\<close> and \<^verbatim>\<open>startTimestamp\<close>
  forward by the length of the pause.
\<close>

theorem target_fields_writers:
  "targetTimestamp (fst (tick h now this)) = targetTimestamp this
   \<and> totalDuration (fst (tick h now this)) = totalDuration this
   \<and> targetTimestamp (pause now this) = targetTimestamp this
   \<and> totalDuration (pause now this) = totalDuration this
   \<and> targetTimestamp (fst (stop this)) = targetTimestamp this
   \<and> totalDuration (fst (stop this)) = totalDuration this
   \<and> targetTimestamp (fst (start h now handle this)) = targetTimestamp this
   \<and> totalDuration (fst (start h now handle this)) = totalDuration this
   \<and> totalDuration (fst (resume h now now1 handle this)) = totalDuration this
   \<and> targetTimestamp (fst (resume h now now1 handle this))
       = (if isPaused this \<and> truthy (duration (timer (opts this)))
             \<and> disableOnPause (timer (opts this))
          then map_option (\<lambda>t. t + (now - pauseStart this)) (targetTimestamp this)
          else targetTimestamp this)
   \<and> startTimestamp (fst (resume h now now1 handle this))
       = (if isPaused this \<and> truthy (duration (timer (opts this)))
             \<and> disableOnPause (timer (opts this))
          then startTimestamp this + (now - pauseStart this)
          else startTimestamp this)
   \<and> targetTimestamp (calculateTarget h now (this\<lparr> targetTimestamp := a, totalDuration := b \<rparr>))
       = targetTimestamp (calculateTarget h now this)
   \<and> totalDuration (calculateTarget h now (this\<lparr> targetTimestamp := a, totalDuration := b \<rparr>))
       = totalDuration (calculateTarget h now this)
   \<and> targetTimestamp (fst (restart h now now1 handle this))
       = targetTimestamp (calculateTarget h now this)
   \<and> totalDuration (fst (restart h now now1 handle this))
       = totalDuration (calculateTarget h now this)
   \<and> targetTimestamp (fst (update h newOptions now now1 handle this))
       = targetTimestamp
           (calculateTarget h now (this\<lparr> opts := merge_options (opts this) newOptions \<rparr>))
   \<and> totalDuration (fst (update h newOptions now now1 handle this))
       = totalDuration
           (calculateTarget h now (this\<lparr> opts := merge_options (opts this) newOptions \<rparr>))"
  by (simp add: tick_state pause_def stop_state start_state resume_state restart_state
      update_def calculateTarget_written calculateTarget_after_stop)

theorem target_fields_writers_witness:
  "isPaused (pause 10000 minute_timer)
   \<and> truthy (duration (timer (opts (pause 10000 minute_timer))))
   \<and> disableOnPause (timer (opts (pause 10000 minute_timer)))
   \<and> targetTimestamp (fst (resume page 25000 25000 2 (pause 10000 minute_timer))) = Some 75000
   \<and> startTimestamp (fst (resume page 25000 25000 2 (pause 10000 minute_timer))) = 15000
   \<and> totalDuration (fst (resume page 25000 25000 2 (pause 10000 minute_timer))) = Some 60000
   \<and> \<not> truthy (duration (timer (opts (pause 1000 dated_timer))))
   \<and> targetTimestamp (fst (resume page 25000 25000 2 (pause 1000 dated_timer))) = Some 5000
   \<and> targetTimestamp (fst (tick page 25000 minute_timer)) = Some 60000"
proof -
  have a: "isPaused (pause 10000 minute_timer)"
    "truthy (duration (timer (opts (pause 10000 minute_timer))))"
    "disableOnPause (timer (opts (pause 10000 minute_timer)))"
    "pauseStart (pause 10000 minute_timer) = 10000"
    "targetTimestamp (pause 10000 minute_timer) = Some 60000"
    "startTimestamp (pause 10000 minute_timer) = 0"
    "totalDuration (pause 10000 minute_timer) = Some 60000"
    "targetTimestamp minute_timer = Some 60000"
    by (simp_all add: fixture_defs pause_def truthy_def)
  have b: "\<not> truthy (duration (timer (opts (pause 1000 dated_timer))))"
    "targetTimestamp (pause 1000 dated_timer) = Some 5000"
    by (simp_all add: fixture_defs pause_def truthy_def)
  show ?thesis
    using target_fields_writers
        [where this = "pause 10000 minute_timer" and h = page and now = 25000
           and ?now1.0 = 25000 and handle = 2]
      target_fields_writers
        [where this = "pause 1000 dated_timer" and h = page and now = 25000
           and ?now1.0 = 25000 and handle = 2]
      target_fields_writers [where this = minute_timer and h = page and now = 25000]
    by (simp add: a b)
qed

text \<open>
  The claim lets no operation but the target computation modify \<^verbatim>\<open>targetTimestamp\<close>,
  and never one field without the other. On the one-minute timer paused at 10000, a
  \<^verbatim>\<open>resume\<close> at 30000 moves the target from 60000 to 80000 and leaves the total duration
  at 60000.
\<close>

theorem resume_writes_target_alone:
  "targetTimestamp (pause 10000 minute_timer) = Some 60000
   \<and> targetTimestamp (fst (resume page 30000 30000 2 (pause 10000 minute_timer))) = Some 80000
   \<and> totalDuration (pause 10000 minute_timer) = Some 60000
   \<and> totalDuration (fst (resume page 30000 30000 2 (pause 10000 minute_timer))) = Some 60000"
  by code_simp

subsection \<open>Starting\<close>

lemma tick_no_setInterval: "SetInterval n p \<notin> set (snd (tick h now this))"
  by (auto simp add: tick_events dom_updates_def update_element_def setInnerText_def
      update_callback_def stop_events finish_callback_def split: option.splits)

text \<open>
  C10. Every \<^verbatim>\<open>start\<close> runs one tick before it registers the interval of 1000 ms: its
  effects are those of a tick on the unpaused instance, which begin with the rendering and
  the update callback, then at most the clearing of the interval held before, and last
  the registration; the tick itself registers nothing. Construction with a selector that
  matches, \<^verbatim>\<open>resume\<close> on a paused instance, \<^verbatim>\<open>restart\<close> and \<^verbatim>\<open>update\<close> all end with
  such a \<^verbatim>\<open>start\<close>, on the elements and options of the instance.
\<close>

theorem start_ticks_first:
  "snd (start h now handle this)
     = snd (tick h now (this\<lparr> isPaused := False \<rparr>))
       @ (if le0 (timeLeft this now) then []
          else case intervalId this of None \<Rightarrow> [] | Some i \<Rightarrow> [ClearInterval i])
       @ [SetInterval handle 1000]
   \<and> snd (tick h now (this\<lparr> isPaused := False \<rparr>))
     = dom_updates h this (individualTimeData (timeLeft this now))
       @ update_callback this now
       @ (if le0 (timeLeft this now) then snd (stop this) @ finish_callback this else [])
   \<and> SetInterval n p \<notin> set (snd (tick h now (this\<lparr> isPaused := False \<rparr>)))
   \<and> (querySelectorAll h selector \<noteq> [] \<longrightarrow>
        (\<exists>this1. elements this1 = querySelectorAll h selector
                 \<and> opts this1 = merge_options (defaults h now0) options
                 \<and> snd (constructor h selector options now0 now2 now handle)
                     = snd (start h now handle this1)))
   \<and> (isPaused this \<longrightarrow>
        (\<exists>this1. elements this1 = elements this \<and> opts this1 = opts this
                 \<and> snd (resume h now2 now handle this) = snd (start h now handle this1)))
   \<and> snd (restart h now2 now handle this)
       = snd (stop this) @ snd (start h now handle (calculateTarget h now2 (fst (stop this))))
   \<and> snd (update h newOptions now2 now handle this)
       = snd (stop this)
         @ snd (start h now handle
                  (calculateTarget h now2
                     (fst (stop (this\<lparr> opts := merge_options (opts this) newOptions \<rparr>)))))"
proof -
  have d: "dom_updates h (this\<lparr> isPaused := False \<rparr>) td = dom_updates h this td" for td
    by (rule dom_updates_opts) simp_all
  have t: "snd (tick h now (this\<lparr> isPaused := False \<rparr>))
     = dom_updates h this (individualTimeData (timeLeft this now))
       @ update_callback this now
       @ (if le0 (timeLeft this now) then snd (stop this) @ finish_callback this else [])"
    by (simp add: tick_events d update_callback_def progressObject_def globalProgress_def
        stop_events finish_callback_def)
  have c: "querySelectorAll h selector \<noteq> [] \<longrightarrow>
        (\<exists>this1. elements this1 = querySelectorAll h selector
                 \<and> opts this1 = merge_options (defaults h now0) options
                 \<and> snd (constructor h selector options now0 now2 now handle)
                     = snd (start h now handle this1))"
  proof
    assume ne: "querySelectorAll h selector \<noteq> []"
    let ?initial = "\<lparr> elements = querySelectorAll h selector,
                   opts = merge_options (defaults h now0) options,
                   intervalId = None, isPaused = False, pauseStart = 0,
                   targetTimestamp = Some 0, startTimestamp = 0, totalDuration = Some 0 \<rparr>"
    have "elements (calculateTarget h now2 ?initial) = querySelectorAll h selector"
      "opts (calculateTarget h now2 ?initial) = merge_options (defaults h now0) options"
      by (simp_all add: calculateTarget_def Let_def)
    moreover have "snd (constructor h selector options now0 now2 now handle)
        = snd (start h now handle (calculateTarget h now2 ?initial))"
      using ne by (simp add: constructor_def init_def Let_def case_prod_beta)
    ultimately show "\<exists>this1. elements this1 = querySelectorAll h selector
                 \<and> opts this1 = merge_options (defaults h now0) options
                 \<and> snd (constructor h selector options now0 now2 now handle)
                     = snd (start h now handle this1)"
      by blast
  qed
  have r: "isPaused this \<longrightarrow>
        (\<exists>this1. elements this1 = elements this \<and> opts this1 = opts this
                 \<and> snd (resume h now2 now handle this) = snd (start h now handle this1))"
  proof
    assume paused: "isPaused this"
    let ?shifted = "if truthy (duration (timer (opts this))) \<and> disableOnPause (timer (opts this))
                  then this\<lparr> targetTimestamp :=
                               map_option (\<lambda>t. t + (now2 - pauseStart this)) (targetTimestamp this),
                             startTimestamp := startTimestamp this + (now2 - pauseStart this) \<rparr>
                  else this"
    have "elements ?shifted = elements this" "opts ?shifted = opts this"
      by simp_all
    moreover have "snd (resume h now2 now handle this) = snd (start h now handle ?shifted)"
      using paused by (simp add: resume_def Let_def)
    ultimately show "\<exists>this1. elements this1 = elements this \<and> opts this1 = opts this
                 \<and> snd (resume h now2 now handle this) = snd (start h now handle this1)"
      by blast
  qed
  have s: "snd (restart h now2 now handle this)
       = snd (stop this) @ snd (start h now handle (calculateTarget h now2 (fst (stop this))))"
    by (simp add: restart_def case_prod_beta)
  have u: "snd (update h newOptions now2 now handle this)
       = snd (stop this)
         @ snd (start h now handle
                  (calculateTarget h now2
                     (fst (stop (this\<lparr> opts := merge_options (opts this) newOptions \<rparr>)))))"
    by (simp add: update_def restart_def case_prod_beta stop_events)
  show ?thesis
    using start_events [of h now handle this] t tick_no_setInterval c r s u by blast
qed

theorem start_ticks_first_witness:
  "querySelectorAll page ''#timer'' \<noteq> []
   \<and> snd (constructor page ''#timer'' minute_options 0 0 0 1)
       = [SetText 1 ''01'', SetText 2 ''00'',
          OnUpdate (progressObject minute_timer 0) (Some 60000)
            (individualTimeData (Some 60000)),
          SetInterval 1 1000]
   \<and> isPaused (pause 10000 minute_timer)
   \<and> snd (start page 10000 2 minute_timer)
       = [SetText 1 ''00'', SetText 2 ''50'',
          OnUpdate (progressObject minute_timer 10000) (Some 50000)
            (individualTimeData (Some 50000)),
          ClearInterval 1, SetInterval 2 1000]"
proof -
  have a: "querySelectorAll page ''#timer'' \<noteq> []" "isPaused (pause 10000 minute_timer)"
    by (simp_all add: page_def pause_def)
  have "snd (tick page 10000 (minute_timer\<lparr> isPaused := False \<rparr>))
       = [SetText 1 ''00'', SetText 2 ''50'',
          OnUpdate (progressObject minute_timer 10000) (Some 50000)
            (individualTimeData (Some 50000))]"
    by code_simp
  moreover have "\<not> le0 (timeLeft minute_timer 10000)" "intervalId minute_timer = Some 1"
    by (simp_all add: minute_timer_def timeLeft_def le0_def)
  moreover have "snd (constructor page ''#timer'' minute_options 0 0 0 1)
       = [SetText 1 ''01'', SetText 2 ''00'',
          OnUpdate (progressObject minute_timer 0) (Some 60000)
            (individualTimeData (Some 60000)),
          SetInterval 1 1000]"
    by code_simp
  ultimately show ?thesis
    using a start_ticks_first [where h = page and now = 10000 and handle = 2
        and this = minute_timer]
    by simp
qed
end
